theory Spec2Isabelle
  imports Main
begin

section \<open>Values of a parsed request body\<close>

text \<open>
  \<^verbatim>\<open>req.body\<close> is what \<^verbatim>\<open>express.urlencoded({ extended: true })\<close> or
  \<^verbatim>\<open>express.json()\<close> parsed: an object whose properties are strings, numbers,
  booleans, \<^verbatim>\<open>null\<close>, arrays and objects. The program never computes with a number; it
  only tests it for truthiness and converts it to a string, so a number is represented
  by the string that JavaScript's number-to-string conversion gives for it
  (\<open>''0''\<close> for both zeros, \<open>''NaN''\<close>).
\<close>

datatype jsval =
    JUndefined
  | JNull
  | JBool bool
  | JNum string
  | JStr string
  | JArr "jsval list"
  | JObj "(string \<times> jsval) list"

datatype error =
    SqliteIOErr
  | SqliteRange
  | NoSuchTable string
  | ConstraintNotNull string
  | ConstraintUnique string
  | TypeError
  | IllegalArguments

text \<open>Truthiness, as \<^verbatim>\<open>||\<close> and \<^verbatim>\<open>if\<close> test it.\<close>

fun truthy :: "jsval \<Rightarrow> bool" where
  "truthy JUndefined = False"
| "truthy JNull = False"
| "truthy (JBool b) = b"
| "truthy (JNum n) = (n \<noteq> ''0'' \<and> n \<noteq> ''NaN'')"
| "truthy (JStr s) = (s \<noteq> [])"
| "truthy (JArr vs) = True"
| "truthy (JObj fs) = True"

fun isArray :: "jsval \<Rightarrow> bool" where
  "isArray (JArr vs) = True"
| "isArray v = False"

fun elements :: "jsval \<Rightarrow> jsval list" where
  "elements (JArr vs) = vs"
| "elements v = []"

text \<open>Joining strings with a separator: the string part of \<^verbatim>\<open>Array.prototype.join\<close>.\<close>

fun joinStrs :: "string \<Rightarrow> string list \<Rightarrow> string" where
  "joinStrs sep [] = []"
| "joinStrs sep [x] = x"
| "joinStrs sep (x # y # ys) = x @ sep @ joinStrs sep (y # ys)"

text \<open>The conversions run left to right and the first exception ends them.\<close>

fun collect :: "(error + 'a) list \<Rightarrow> error + 'a list" where
  "collect [] = Inr []"
| "collect (Inl e # rs) = Inl e"
| "collect (Inr x # rs) = (case collect rs of Inl e \<Rightarrow> Inl e | Inr xs \<Rightarrow> Inr (x # xs))"

text \<open>
  \<^verbatim>\<open>String(v)\<close>. An array converts through \<^verbatim>\<open>join(',')\<close>, where an element that is
  \<^verbatim>\<open>null\<close> or \<^verbatim>\<open>undefined\<close> gives the empty string. A plain object gives
  \<^verbatim>\<open>[object Object]\<close>, unless it has an own property \<^verbatim>\<open>toString\<close>: a parsed body holds no
  functions, so that property is not callable, \<^verbatim>\<open>Object.prototype.valueOf\<close> returns the
  object itself, and the conversion throws a TypeError.
\<close>

fun ToString :: "jsval \<Rightarrow> error + string" where
  "ToString JUndefined = Inr ''undefined''"
| "ToString JNull = Inr ''null''"
| "ToString (JBool b) = Inr (if b then ''true'' else ''false'')"
| "ToString (JNum n) = Inr n"
| "ToString (JStr s) = Inr s"
| "ToString (JArr vs) =
     (case collect (map (\<lambda>v. if v = JUndefined \<or> v = JNull then Inr [] else ToString v) vs) of
        Inl e \<Rightarrow> Inl e
      | Inr ss \<Rightarrow> Inr (joinStrs '','' ss))"
| "ToString (JObj fs) =
     (if ''toString'' \<in> fst ` set fs then Inl TypeError else Inr ''[object Object]'')"

text \<open>One element of \<^verbatim>\<open>join\<close>.\<close>

definition elemStr :: "jsval \<Rightarrow> error + string" where
  "elemStr v = (if v = JUndefined \<or> v = JNull then Inr [] else ToString v)"

text \<open>\<^verbatim>\<open>topics.join(sep)\<close> on an array.\<close>

definition join :: "string \<Rightarrow> jsval list \<Rightarrow> error + string" where
  "join sep vs =
     (case collect (map elemStr vs) of Inl e \<Rightarrow> Inl e | Inr ss \<Rightarrow> Inr (joinStrs sep ss))"

text \<open>Reading a property of the body: \<^verbatim>\<open>undefined\<close> when it is not there.\<close>

definition getProp :: "(string \<rightharpoonup> jsval) \<Rightarrow> string \<Rightarrow> jsval" where
  "getProp body k = (case body k of None \<Rightarrow> JUndefined | Some v \<Rightarrow> v)"

text \<open>
  Lines 201 and 202 of the contact handler:
  \<^verbatim>\<open>const { ..., topics = [] } = req.body;\<close>
  \<^verbatim>\<open>const topicsStr = Array.isArray(topics) ? topics.join(', ') : String(topics || '');\<close>
  The default of the destructuring applies to \<^verbatim>\<open>undefined\<close> only.
\<close>

definition topicsStr :: "(string \<rightharpoonup> jsval) \<Rightarrow> error + string" where
  "topicsStr body =
     (let topics = (case getProp body ''topics'' of JUndefined \<Rightarrow> JArr [] | v \<Rightarrow> v)
      in if isArray topics then join '', '' (elements topics)
         else ToString (if truthy topics then topics else JStr ''''))"

section \<open>The data store\<close>

text \<open>
  The three tables of \<^verbatim>\<open>schema.sql\<close>. Every column but \<^verbatim>\<open>id\<close> and \<^verbatim>\<open>created_at\<close> is
  \<^verbatim>\<open>TEXT NOT NULL\<close>, so a stored row holds strings.
\<close>

record user_row =
  u_id :: nat
  u_username :: string
  u_password_hash :: string
  u_name :: string

record service_row =
  s_id :: nat
  s_title :: string
  s_price :: string
  s_summary :: string

record message_row =
  m_id :: nat
  m_name :: string
  m_email :: string
  m_message :: string
  m_topics :: string
  m_created_at :: nat

datatype table = Users | Services | Messages

fun table_name :: "table \<Rightarrow> string" where
  "table_name Users = ''users''"
| "table_name Services = ''services''"
| "table_name Messages = ''messages''"

text \<open>The statements the program sends to SQLite, in the order they appear in the source.\<close>

datatype sql =
    PragmaJournalModeWAL
  | PragmaForeignKeysON
  | CreateTableIfNotExists table
  | SelectNameFromSqliteMaster table
  | SelectCountUsers
  | InsertUser
  | InsertService
  | SelectUserByUsername
  | SelectAllServices
  | InsertMessage
  | SelectServiceByTitle

text \<open>A bound parameter, and a row of a result.\<close>

datatype sqlval = SqlNull | SqlText string | SqlNumber string

datatype row =
    NameRow string
  | CountRow nat
  | UserRow user_row
  | ServiceRow service_row

text \<open>The session store keeps, for a token, the identity that the login handler wrote.\<close>

record identity =
  i_id :: nat
  i_name :: string
  i_username :: string

datatype logline = Log string | LogError string error

text \<open>
  The state of the process and of what it rests on: the tables (\<open>None\<close> when a table
  does not exist) with their \<^verbatim>\<open>AUTOINCREMENT\<close> counters, the clock that
  \<^verbatim>\<open>CURRENT_TIMESTAMP\<close> reads, the parsed \<^verbatim>\<open>schema.sql\<close> (\<open>None\<close> when the file does
  not exist), the session store, and the console. \<open>faults\<close> is the environment's
  schedule of storage failures: the next SQLite statement fails with an I/O error when
  the head of the list is \<open>True\<close>; an empty list means no failure from here on.
\<close>

record world =
  users :: "user_row list option"
  services :: "service_row list option"
  messages :: "message_row list option"
  users_seq :: nat
  services_seq :: nat
  messages_seq :: nat
  clock :: nat
  schema_file :: "sql list option"
  faults :: "bool list"
  sessions :: "nat \<rightharpoonup> identity"
  next_sid :: nat
  console :: "logline list"

section \<open>Promises\<close>

text \<open>
  An \<^verbatim>\<open>async\<close> computation takes the state and gives the new state together with the
  value it resolves to (\<open>Inr\<close>) or the error it rejects with (\<open>Inl\<close>).
\<close>

type_synonym 'a io = "world \<Rightarrow> (error + 'a) \<times> world"

definition resolve :: "'a \<Rightarrow> 'a io" where
  "resolve x w = (Inr x, w)"

definition reject :: "error \<Rightarrow> 'a io" where
  "reject e w = (Inl e, w)"

definition await :: "'a io \<Rightarrow> ('a \<Rightarrow> 'b io) \<Rightarrow> 'b io" where
  "await m k w = (case m w of (Inl e, w') \<Rightarrow> (Inl e, w') | (Inr x, w') \<Rightarrow> k x w')"

definition try_catch :: "'a io \<Rightarrow> (error \<Rightarrow> 'a io) \<Rightarrow> 'a io" where
  "try_catch m h w = (case m w of (Inl e, w') \<Rightarrow> h e w' | (Inr x, w') \<Rightarrow> (Inr x, w'))"

definition console_log :: "string \<Rightarrow> unit io" where
  "console_log s w = (Inr (), w\<lparr>console := console w @ [Log s]\<rparr>)"

definition console_error :: "string \<Rightarrow> error \<Rightarrow> unit io" where
  "console_error s e w = (Inr (), w\<lparr>console := console w @ [LogError s e]\<rparr>)"

text \<open>\<^verbatim>\<open>for (const x of xs) { await f(x); }\<close>\<close>

fun for_each :: "'a list \<Rightarrow> ('a \<Rightarrow> unit io) \<Rightarrow> unit io" where
  "for_each [] f = resolve ()"
| "for_each (x # xs) f = await (f x) (\<lambda>_. for_each xs f)"

section \<open>SQLite\<close>

text \<open>
  Every statement first meets the environment: it fails with an I/O error when the
  schedule says so, and the schedule moves on.
\<close>

definition sqlite_step :: "unit io" where
  "sqlite_step w =
     (case faults w of
        [] \<Rightarrow> (Inr (), w)
      | f # fs \<Rightarrow> (if f then Inl SqliteIOErr else Inr (), w\<lparr>faults := fs\<rparr>))"

text \<open>
  What a \<^verbatim>\<open>TEXT NOT NULL\<close> column stores for a bound value: nothing for \<^verbatim>\<open>NULL\<close> (the
  constraint fails), the text itself, and for a number its text (taken to be the
  rendering that represents the number).
\<close>

fun text_affinity :: "sqlval \<Rightarrow> string option" where
  "text_affinity SqlNull = None"
| "text_affinity (SqlText s) = Some s"
| "text_affinity (SqlNumber n) = Some n"

text \<open>\<^verbatim>\<open>INTEGER PRIMARY KEY AUTOINCREMENT\<close>: one more than every id used so far.\<close>

definition next_rowid :: "nat \<Rightarrow> nat list \<Rightarrow> nat" where
  "next_rowid seq ids = Suc (fold max ids seq)"

definition table_exists :: "table \<Rightarrow> world \<Rightarrow> bool" where
  "table_exists t w =
     (case t of Users \<Rightarrow> users w \<noteq> None
              | Services \<Rightarrow> services w \<noteq> None
              | Messages \<Rightarrow> messages w \<noteq> None)"

definition create_table :: "table \<Rightarrow> world \<Rightarrow> world" where
  "create_table t w =
     (if table_exists t w then w
      else case t of Users \<Rightarrow> w\<lparr>users := Some []\<rparr>
                   | Services \<Rightarrow> w\<lparr>services := Some []\<rparr>
                   | Messages \<Rightarrow> w\<lparr>messages := Some []\<rparr>)"

definition insert_user :: "sqlval \<Rightarrow> sqlval \<Rightarrow> sqlval \<Rightarrow> row list io" where
  "insert_user a b c w =
     (case users w of
        None \<Rightarrow> (Inl (NoSuchTable ''users''), w)
      | Some rs \<Rightarrow>
         (case text_affinity a of
            None \<Rightarrow> (Inl (ConstraintNotNull ''users.username''), w)
          | Some u \<Rightarrow>
         (case text_affinity b of
            None \<Rightarrow> (Inl (ConstraintNotNull ''users.password_hash''), w)
          | Some h \<Rightarrow>
         (case text_affinity c of
            None \<Rightarrow> (Inl (ConstraintNotNull ''users.name''), w)
          | Some n \<Rightarrow>
             if u \<in> u_username ` set rs then (Inl (ConstraintUnique ''users.username''), w)
             else let i = next_rowid (users_seq w) (map u_id rs)
                  in (Inr [], w\<lparr>users := Some (rs @ [\<lparr>u_id = i, u_username = u,
                                    u_password_hash = h, u_name = n\<rparr>]),
                                users_seq := i\<rparr>)))))"

definition insert_service :: "sqlval \<Rightarrow> sqlval \<Rightarrow> sqlval \<Rightarrow> row list io" where
  "insert_service a b c w =
     (case services w of
        None \<Rightarrow> (Inl (NoSuchTable ''services''), w)
      | Some rs \<Rightarrow>
         (case text_affinity a of
            None \<Rightarrow> (Inl (ConstraintNotNull ''services.title''), w)
          | Some t \<Rightarrow>
         (case text_affinity b of
            None \<Rightarrow> (Inl (ConstraintNotNull ''services.price''), w)
          | Some p \<Rightarrow>
         (case text_affinity c of
            None \<Rightarrow> (Inl (ConstraintNotNull ''services.summary''), w)
          | Some s \<Rightarrow>
             let i = next_rowid (services_seq w) (map s_id rs)
             in (Inr [], w\<lparr>services := Some (rs @ [\<lparr>s_id = i, s_title = t,
                                  s_price = p, s_summary = s\<rparr>]),
                           services_seq := i\<rparr>)))))"

definition insert_message :: "sqlval \<Rightarrow> sqlval \<Rightarrow> sqlval \<Rightarrow> sqlval \<Rightarrow> row list io" where
  "insert_message a b c d w =
     (case messages w of
        None \<Rightarrow> (Inl (NoSuchTable ''messages''), w)
      | Some rs \<Rightarrow>
         (case text_affinity a of
            None \<Rightarrow> (Inl (ConstraintNotNull ''messages.name''), w)
          | Some n \<Rightarrow>
         (case text_affinity b of
            None \<Rightarrow> (Inl (ConstraintNotNull ''messages.email''), w)
          | Some e \<Rightarrow>
         (case text_affinity c of
            None \<Rightarrow> (Inl (ConstraintNotNull ''messages.message''), w)
          | Some m \<Rightarrow>
         (case text_affinity d of
            None \<Rightarrow> (Inl (ConstraintNotNull ''messages.topics''), w)
          | Some t \<Rightarrow>
             let i = next_rowid (messages_seq w) (map m_id rs)
             in (Inr [], w\<lparr>messages := Some (rs @ [\<lparr>m_id = i, m_name = n, m_email = e,
                                  m_message = m, m_topics = t, m_created_at = clock w\<rparr>]),
                           messages_seq := i\<rparr>))))))"

text \<open>
  The statements, by cases. A statement that is given another number of parameters
  than it has placeholders fails (the program never does that).
\<close>

fun eval_sql :: "sql \<Rightarrow> sqlval list \<Rightarrow> row list io" where
  "eval_sql PragmaJournalModeWAL [] = resolve []"
| "eval_sql PragmaForeignKeysON [] = resolve []"
| "eval_sql (CreateTableIfNotExists t) [] = (\<lambda>w. (Inr [], create_table t w))"
| "eval_sql (SelectNameFromSqliteMaster t) [] =
     (\<lambda>w. (Inr (if table_exists t w then [NameRow (table_name t)] else []), w))"
| "eval_sql SelectCountUsers [] =
     (\<lambda>w. case users w of
             None \<Rightarrow> (Inl (NoSuchTable ''users''), w)
           | Some rs \<Rightarrow> (Inr [CountRow (length rs)], w))"
| "eval_sql InsertUser [a, b, c] = insert_user a b c"
| "eval_sql InsertService [a, b, c] = insert_service a b c"
| "eval_sql SelectUserByUsername [a] =
     (\<lambda>w. case users w of
             None \<Rightarrow> (Inl (NoSuchTable ''users''), w)
           | Some rs \<Rightarrow>
               (Inr (map UserRow (filter (\<lambda>r. text_affinity a = Some (u_username r)) rs)), w))"
| "eval_sql SelectAllServices [] =
     (\<lambda>w. case services w of
             None \<Rightarrow> (Inl (NoSuchTable ''services''), w)
           | Some rs \<Rightarrow> (Inr (map ServiceRow rs), w))"
| "eval_sql InsertMessage [a, b, c, d] = insert_message a b c d"
| "eval_sql SelectServiceByTitle [a] =
     (\<lambda>w. case services w of
             None \<Rightarrow> (Inl (NoSuchTable ''services''), w)
           | Some rs \<Rightarrow>
               (Inr (map ServiceRow (filter (\<lambda>r. text_affinity a = Some (s_title r)) rs)), w))"
| "eval_sql q ps = reject SqliteRange"

definition sqlite :: "sql \<Rightarrow> sqlval list \<Rightarrow> row list io" where
  "sqlite q ps = await sqlite_step (\<lambda>_. eval_sql q ps)"

subsection \<open>The four helpers of the source\<close>

text \<open>
  \<^verbatim>\<open>run\<close> resolves when the statement has run, \<^verbatim>\<open>get\<close> with the first row of the result
  or \<^verbatim>\<open>undefined\<close> (\<open>None\<close>), \<^verbatim>\<open>all\<close> with every row; \<^verbatim>\<open>exec\<close> runs the statements of a
  script one after the other and stops at the first that fails. Each rejects with the
  error SQLite reports.
\<close>

definition run :: "sql \<Rightarrow> sqlval list \<Rightarrow> unit io" where
  "run q ps = await (sqlite q ps) (\<lambda>_. resolve ())"

definition get :: "sql \<Rightarrow> sqlval list \<Rightarrow> row option io" where
  "get q ps = await (sqlite q ps) (\<lambda>rs. resolve (case rs of [] \<Rightarrow> None | r # _ \<Rightarrow> Some r))"

definition all :: "sql \<Rightarrow> sqlval list \<Rightarrow> row list io" where
  "all q ps = sqlite q ps"

fun exec :: "sql list \<Rightarrow> unit io" where
  "exec [] = resolve ()"
| "exec (q # qs) = await (sqlite q []) (\<lambda>_. exec qs)"

section \<open>Schema and seed\<close>

text \<open>\<^verbatim>\<open>schema.sql\<close> as it is in the repository.\<close>

definition schema_sql :: "sql list" where
  "schema_sql = [CreateTableIfNotExists Users, CreateTableIfNotExists Services,
                 CreateTableIfNotExists Messages]"

text \<open>
  \<^verbatim>\<open>ensureSchema\<close>: the two PRAGMAs, the schema file when it exists and is not blank,
  then for each table the query of \<^verbatim>\<open>sqlite_master\<close> and, when it finds nothing, the
  \<^verbatim>\<open>CREATE TABLE IF NOT EXISTS\<close> of the source.
\<close>

definition ensureSchema :: "unit io" where
  "ensureSchema =
     await (run PragmaJournalModeWAL []) (\<lambda>_.
     await (run PragmaForeignKeysON []) (\<lambda>_.
     await (\<lambda>w. (case schema_file w of
                   None \<Rightarrow> resolve ()
                 | Some schema \<Rightarrow> if schema \<noteq> [] then exec schema else resolve ()) w) (\<lambda>_.
     await (get (SelectNameFromSqliteMaster Services) []) (\<lambda>needServices.
     await (if needServices = None then run (CreateTableIfNotExists Services) []
            else resolve ()) (\<lambda>_.
     await (get (SelectNameFromSqliteMaster Users) []) (\<lambda>needUsers.
     await (if needUsers = None then run (CreateTableIfNotExists Users) []
            else resolve ()) (\<lambda>_.
     await (get (SelectNameFromSqliteMaster Messages) []) (\<lambda>needMessages.
     await (if needMessages = None then run (CreateTableIfNotExists Messages) []
            else resolve ()) (\<lambda>_.
     console_log ''Esquema verificado/aplicado correctamente.'')))))))))"

text \<open>
  bcryptjs is not part of the repository: its two functions are parameters of the model.
  \<^verbatim>\<open>bcrypt.compare\<close> rejects when its first argument is not a string.
\<close>

record bcrypt =
  bc_hash :: "string \<Rightarrow> nat \<Rightarrow> string"
  bc_verify :: "string \<Rightarrow> string \<Rightarrow> bool"

definition bcrypt_hash :: "bcrypt \<Rightarrow> string \<Rightarrow> nat \<Rightarrow> string io" where
  "bcrypt_hash B s rounds = resolve (bc_hash B s rounds)"

definition bcrypt_compare :: "bcrypt \<Rightarrow> jsval \<Rightarrow> string \<Rightarrow> bool io" where
  "bcrypt_compare B s h =
     (case s of JStr p \<Rightarrow> resolve (bc_verify B p h) | _ \<Rightarrow> reject IllegalArguments)"

text \<open>The texts of the source are kept as their UTF-8 bytes.\<close>

definition default_services :: "string list list" where
  "default_services =
     [[''Hosting Web Compartido'', ''Desde $5.99 Anual'',
       ''Plan r'' @ [CHR 0xC3, CHR 0xA1] @ ''pido, seguro y econ'' @ [CHR 0xC3, CHR 0xB3]
         @ ''mico para iniciar tu sitio.''],
      [''Servidores VPS'', ''Desde $8.99 Mensual'',
       ''Control total, rendimiento dedicado y escalabilidad.''],
      [''Correo Corporativo'', ''Incluido 1er a'' @ [CHR 0xC3, CHR 0xB1] @ ''o'',
       ''Dominios y cuentas corporativas con soporte 24/7.'']]"

definition seedIfEmpty :: "bcrypt \<Rightarrow> unit io" where
  "seedIfEmpty B =
     await (get SelectCountUsers []) (\<lambda>row.
       case row of
         Some (CountRow c) \<Rightarrow>
           if c = 0 then
             await (bcrypt_hash B ''Admin*1234'' 10) (\<lambda>hash.
             await (run InsertUser [SqlText ''admin'', SqlText hash, SqlText ''Administrador''])
               (\<lambda>_.
             await (for_each default_services (\<lambda>s. run InsertService (map SqlText s))) (\<lambda>_.
             console_log
               ''BD inicializada con usuario admin / Admin*1234 y servicios de ejemplo.'')))
           else resolve ()
       | Some _ \<Rightarrow> resolve ()
       | None \<Rightarrow> reject TypeError)"

text \<open>
  The start of the process. \<^verbatim>\<open>app.listen\<close> is called at the top level of the module,
  whatever the initialisation does, so the process is listening unless it exits. The
  initialisation is the \<^verbatim>\<open>async\<close> function called on the spot: one \<^verbatim>\<open>try\<close> around the schema
  and the seed, one \<^verbatim>\<open>catch\<close> that writes the error to the console. \<open>init\<close> is the one of
  \<^verbatim>\<open>server.js\<close>, with its \<^verbatim>\<open>--init\<close> switch; \<open>init_001\<close> is the one of the second copy of
  the server, which has no switch. (The second copy also creates the database file from
  \<^verbatim>\<open>schema.sql\<close> when the file is missing, on a connection of its own; that step works on
  the file system and is not modelled.)
\<close>

datatype proc = Listening | Exited nat

definition init :: "bcrypt \<Rightarrow> bool \<Rightarrow> proc io" where
  "init B argv_init =
     try_catch
       (await ensureSchema (\<lambda>_.
          if argv_init then
            await (seedIfEmpty B) (\<lambda>_.
            await (console_log ''Init completo. Puedes cerrar este proceso.'') (\<lambda>_.
            resolve (Exited 0)))
          else
            await (seedIfEmpty B) (\<lambda>_. resolve Listening)))
       (\<lambda>e. await (console_error ''Error al inicializar el esquema/seed:'' e) (\<lambda>_.
            resolve Listening))"

definition init_001 :: "bcrypt \<Rightarrow> proc io" where
  "init_001 B =
     try_catch
       (await ensureSchema (\<lambda>_.
        await (seedIfEmpty B) (\<lambda>_. resolve Listening)))
       (\<lambda>e. await (console_error ''Error al inicializar el esquema/seed:'' e) (\<lambda>_.
            resolve Listening))"

section \<open>Requests, sessions and responses\<close>

datatype verb = GET | POST

text \<open>What the client sends: the cookie is the session token, when there is one.\<close>

record http_request =
  req_method :: verb
  req_path :: string
  req_cookie :: "nat option"
  req_body :: "string \<rightharpoonup> jsval"

text \<open>
  \<^verbatim>\<open>req.session\<close>: the id of the session in the store (\<open>None\<close> for the new session of a
  request that brought no token of the store; with \<^verbatim>\<open>saveUninitialized: false\<close> it is
  not stored) and \<^verbatim>\<open>req.session.user\<close>.
\<close>

record session =
  sess_id :: "nat option"
  sess_user :: "identity option"

record request = http_request +
  req_session :: session

text \<open>
  The session middleware of \<^verbatim>\<open>express-session\<close>, which is not part of the repository,
  reduced to what the handlers use: it resolves the token in the store and attaches the
  session to the request. The one-hour life of a cookie is not modelled.
\<close>

definition session_mw :: "world \<Rightarrow> http_request \<Rightarrow> request" where
  "session_mw w r =
     \<lparr>req_method = req_method r, req_path = req_path r, req_cookie = req_cookie r,
      req_body = req_body r,
      req_session =
        (case req_cookie r of
           None \<Rightarrow> \<lparr>sess_id = None, sess_user = None\<rparr>
         | Some t \<Rightarrow>
            (case sessions w t of
               None \<Rightarrow> \<lparr>sess_id = None, sess_user = None\<rparr>
             | Some u \<Rightarrow> \<lparr>sess_id = Some t, sess_user = Some u\<rparr>))\<rparr>"

text \<open>
  \<^verbatim>\<open>req.session.user = u\<close>, saved when the response ends: under the id of the session,
  or under a new id for a new session. The id goes back to the client in a cookie.
\<close>

definition session_set_user :: "request \<Rightarrow> identity \<Rightarrow> nat io" where
  "session_set_user req u w =
     (case sess_id (req_session req) of
        Some t \<Rightarrow> (Inr t, w\<lparr>sessions := (sessions w)(t \<mapsto> u)\<rparr>)
      | None \<Rightarrow> (Inr (next_sid w),
                 w\<lparr>sessions := (sessions w)(next_sid w \<mapsto> u), next_sid := Suc (next_sid w)\<rparr>))"

text \<open>\<^verbatim>\<open>req.session.destroy(cb)\<close>\<close>

definition session_destroy :: "request \<Rightarrow> unit io" where
  "session_destroy req w =
     (case sess_id (req_session req) of
        Some t \<Rightarrow> (Inr (), w\<lparr>sessions := (sessions w)(t := None)\<rparr>)
      | None \<Rightarrow> (Inr (), w))"

text \<open>The data given to a template, and the responses.\<close>

datatype viewval =
    VNull
  | VUndefined
  | VStr string
  | VIdentity identity
  | VRow row
  | VRows "row list"

datatype response =
    Redirect string
  | Render string "(string \<times> viewval) list"
  | Send nat string
  | NotFound

text \<open>A reply is the response and the session cookie it sets, if any.\<close>

type_synonym reply = "response \<times> nat option"

definition view_user :: "request \<Rightarrow> viewval" where
  "view_user req =
     (case sess_user (req_session req) of None \<Rightarrow> VUndefined | Some u \<Rightarrow> VIdentity u)"

text \<open>
  How the \<^verbatim>\<open>sqlite3\<close> module binds a parameter: a string as text, a number as a number,
  a boolean as 1 or 0, \<^verbatim>\<open>null\<close> as NULL; \<^verbatim>\<open>undefined\<close> is left unbound, which SQLite
  reads as NULL; any other object as the text \<^verbatim>\<open>[object Object]\<close>.
\<close>

fun bindParam :: "jsval \<Rightarrow> sqlval" where
  "bindParam JUndefined = SqlNull"
| "bindParam JNull = SqlNull"
| "bindParam (JBool b) = SqlNumber (if b then ''1'' else ''0'')"
| "bindParam (JNum n) = SqlNumber n"
| "bindParam (JStr s) = SqlText s"
| "bindParam (JArr vs) = SqlText ''[object Object]''"
| "bindParam (JObj fs) = SqlText ''[object Object]''"

section \<open>The auth gate and the handlers\<close>

text \<open>A middleware either hands over to the next one of its route or responds.\<close>

datatype flow = Next | Respond reply

definition requireAuth :: "request \<Rightarrow> flow" where
  "requireAuth req =
     (if sess_user (req_session req) \<noteq> None then Next
      else Respond (Redirect ''/login'', None))"

definition root_get :: "request \<Rightarrow> reply io" where
  "root_get req = resolve (Redirect ''/login'', None)"

definition login_get :: "request \<Rightarrow> reply io" where
  "login_get req =
     (if sess_user (req_session req) \<noteq> None then resolve (Redirect ''/dashboard'', None)
      else resolve (Render ''login'' [(''error'', VNull)], None))"

definition invalid_credentials :: string where
  "invalid_credentials =
     ''Usuario o contrase'' @ [CHR 0xC3, CHR 0xB1] @ ''a inv'' @ [CHR 0xC3, CHR 0xA1] @ ''lidos''"

definition login_post :: "bcrypt \<Rightarrow> request \<Rightarrow> reply io" where
  "login_post B req =
     try_catch
       (let username = getProp (req_body req) ''username'';
            password = getProp (req_body req) ''password''
        in await (get SelectUserByUsername [bindParam username]) (\<lambda>user.
             case user of
               None \<Rightarrow> resolve (Render ''login'' [(''error'', VStr invalid_credentials)], None)
             | Some (UserRow u) \<Rightarrow>
                 await (bcrypt_compare B password (u_password_hash u)) (\<lambda>ok.
                   if \<not> ok then
                     resolve (Render ''login'' [(''error'', VStr invalid_credentials)], None)
                   else
                     await (session_set_user req
                              \<lparr>i_id = u_id u, i_name = u_name u, i_username = u_username u\<rparr>)
                       (\<lambda>t. resolve (Redirect ''/dashboard'', Some t)))
             | Some _ \<Rightarrow> reject IllegalArguments))
       (\<lambda>e. await (console_error ''Error en login:'' e) (\<lambda>_.
            resolve (Render ''login'' [(''error'', VStr ''Error interno. Intenta de nuevo.'')],
                     None)))"

definition logout_post :: "request \<Rightarrow> reply io" where
  "logout_post req = await (session_destroy req) (\<lambda>_. resolve (Redirect ''/login'', None))"

definition dashboard_get :: "request \<Rightarrow> reply io" where
  "dashboard_get req =
     try_catch
       (await (all SelectAllServices []) (\<lambda>services.
          resolve (Render ''dashboard'' [(''user'', view_user req), (''services'', VRows services)],
                   None)))
       (\<lambda>e. await (console_error ''Error cargando dashboard:'' e) (\<lambda>_.
            resolve (Send 500 ''Error cargando dashboard'', None)))"

definition about_get :: "request \<Rightarrow> reply io" where
  "about_get req = resolve (Render ''about'' [(''user'', view_user req)], None)"

definition contact_get :: "request \<Rightarrow> reply io" where
  "contact_get req =
     resolve (Render ''contact'' [(''user'', view_user req), (''ok'', VNull)], None)"

definition contact_post :: "request \<Rightarrow> reply io" where
  "contact_post req =
     try_catch
       (let name = getProp (req_body req) ''name'';
            email = getProp (req_body req) ''email'';
            message = getProp (req_body req) ''message''
        in case topicsStr (req_body req) of
             Inl e \<Rightarrow> reject e
           | Inr topics \<Rightarrow>
               await (run InsertMessage
                        [bindParam name, bindParam email, bindParam message, SqlText topics])
                 (\<lambda>_.
               resolve (Render ''contact'' [(''user'', view_user req),
                                           (''ok'', VStr ''Mensaje enviado correctamente.'')],
                        None)))
       (\<lambda>e. await (console_error ''Error guardando mensaje:'' e) (\<lambda>_.
            resolve (Render ''contact'' [(''user'', view_user req),
                                        (''ok'', VStr ''No se pudo enviar. Intenta nuevamente.'')],
                     None)))"

definition hosting_get :: "request \<Rightarrow> reply io" where
  "hosting_get req =
     try_catch
       (await (get SelectServiceByTitle [SqlText ''Hosting Web Compartido'']) (\<lambda>hosting.
          resolve (Render ''hosting''
                     [(''user'', view_user req),
                      (''hosting'', case hosting of None \<Rightarrow> VUndefined | Some r \<Rightarrow> VRow r)],
                   None)))
       (\<lambda>e. await (console_error ''Error cargando hosting:'' e) (\<lambda>_.
            resolve (Send 500 ''Error cargando hosting'', None)))"

definition service_page_get :: "string \<Rightarrow> request \<Rightarrow> reply io" where
  "service_page_get page req =
     resolve (Render (''services/'' @ page) [(''user'', view_user req)], None)"

section \<open>The routes\<close>

datatype hname =
    RequireAuth
  | RootGet
  | LoginGet
  | LoginPost
  | LogoutPost
  | DashboardGet
  | AboutGet
  | ContactGet
  | ContactPost
  | HostingGet
  | ServicePageGet string

definition servicePages :: "string list" where
  "servicePages = [''vps'', ''dedicados'', ''dominios'', ''ssl'', ''backup'', ''correo'',
                   ''seguridad'', ''monitoreo'', ''creador'']"

text \<open>
  The routes in the order the source registers them, each with the middlewares it was
  given: the first that matches method and path serves the request.
\<close>

definition routes :: "((verb \<times> string) \<times> hname list) list" where
  "routes =
     [((GET, ''/''), [RootGet]),
      ((GET, ''/login''), [LoginGet]),
      ((POST, ''/login''), [LoginPost]),
      ((POST, ''/logout''), [LogoutPost]),
      ((GET, ''/dashboard''), [RequireAuth, DashboardGet]),
      ((GET, ''/about''), [RequireAuth, AboutGet]),
      ((GET, ''/contact''), [RequireAuth, ContactGet]),
      ((POST, ''/contact''), [RequireAuth, ContactPost]),
      ((GET, ''/hosting''), [RequireAuth, HostingGet])]
     @ map (\<lambda>page. ((GET, ''/'' @ page), [RequireAuth, ServicePageGet page])) servicePages"

definition middleware :: "bcrypt \<Rightarrow> hname \<Rightarrow> request \<Rightarrow> flow io" where
  "middleware B h req =
     (case h of
        RequireAuth \<Rightarrow> resolve (requireAuth req)
      | RootGet \<Rightarrow> await (root_get req) (\<lambda>r. resolve (Respond r))
      | LoginGet \<Rightarrow> await (login_get req) (\<lambda>r. resolve (Respond r))
      | LoginPost \<Rightarrow> await (login_post B req) (\<lambda>r. resolve (Respond r))
      | LogoutPost \<Rightarrow> await (logout_post req) (\<lambda>r. resolve (Respond r))
      | DashboardGet \<Rightarrow> await (dashboard_get req) (\<lambda>r. resolve (Respond r))
      | AboutGet \<Rightarrow> await (about_get req) (\<lambda>r. resolve (Respond r))
      | ContactGet \<Rightarrow> await (contact_get req) (\<lambda>r. resolve (Respond r))
      | ContactPost \<Rightarrow> await (contact_post req) (\<lambda>r. resolve (Respond r))
      | HostingGet \<Rightarrow> await (hosting_get req) (\<lambda>r. resolve (Respond r))
      | ServicePageGet page \<Rightarrow> await (service_page_get page req) (\<lambda>r. resolve (Respond r)))"

text \<open>
  Running the middlewares of a route: the result, the state, and the middlewares that
  were invoked, in order. A request that no middleware answers gets Express's 404.
\<close>

fun run_stack ::
  "bcrypt \<Rightarrow> hname list \<Rightarrow> request \<Rightarrow> world \<Rightarrow> ((error + reply) \<times> world) \<times> hname list" where
  "run_stack B [] req w = ((Inr (NotFound, None), w), [])"
| "run_stack B (h # hs) req w =
     (case middleware B h req w of
        (Inl e, w') \<Rightarrow> ((Inl e, w'), [h])
      | (Inr (Respond r), w') \<Rightarrow> ((Inr r, w'), [h])
      | (Inr Next, w') \<Rightarrow> (case run_stack B hs req w' of (res, tr) \<Rightarrow> (res, h # tr)))"

definition app :: "bcrypt \<Rightarrow> http_request \<Rightarrow> world \<Rightarrow> ((error + reply) \<times> world) \<times> hname list" where
  "app B r w =
     (case map_of routes (req_method r, req_path r) of
        None \<Rightarrow> ((Inr (NotFound, None), w), [])
      | Some stack \<Rightarrow> run_stack B stack (session_mw w r) w)"

section \<open>Notions used in the statements, and concrete inputs\<close>

text \<open>
  The rows of a table, none for a table that does not exist; the store in which every
  table that was absent exists and is empty; the three tables together; and the condition
  that \<^verbatim>\<open>schema.sql\<close>, when it exists, holds nothing but \<^verbatim>\<open>CREATE TABLE IF NOT EXISTS\<close>
  statements (the file of the repository, whole or cut down).
\<close>

definition rows_of :: "'a list option \<Rightarrow> 'a list" where
  "rows_of t = (case t of None \<Rightarrow> [] | Some rs \<Rightarrow> rs)"

definition ensured :: "world \<Rightarrow> world" where
  "ensured w = w\<lparr>users := Some (rows_of (users w)),
                 services := Some (rows_of (services w)),
                 messages := Some (rows_of (messages w))\<rparr>"

definition only_creates :: "sql list \<Rightarrow> bool" where
  "only_creates qs = list_all (\<lambda>q. case q of CreateTableIfNotExists t \<Rightarrow> True | _ \<Rightarrow> False) qs"

definition schema_file_ok :: "world \<Rightarrow> bool" where
  "schema_file_ok w = (case schema_file w of None \<Rightarrow> True | Some qs \<Rightarrow> only_creates qs)"

definition tables :: "world \<Rightarrow> user_row list option \<times> service_row list option \<times> message_row list option" where
  "tables w = (users w, services w, messages w)"

text \<open>
  A stand-in for bcrypt, and stores to evaluate the program on: the store of a first
  start, and one that has the \<^verbatim>\<open>users\<close> table with the administrator, no other table
  and no schema file.
\<close>

definition toy_bcrypt :: bcrypt where
  "toy_bcrypt = \<lparr>bc_hash = (\<lambda>p rounds. ''$2a$'' @ p), bc_verify = (\<lambda>p h. h = ''$2a$'' @ p)\<rparr>"

definition admin_row :: user_row where
  "admin_row = \<lparr>u_id = 1, u_username = ''admin'', u_password_hash = ''$2a$Admin*1234'',
                u_name = ''Administrador''\<rparr>"

definition fresh_world :: world where
  "fresh_world = \<lparr>users = None, services = None, messages = None,
                  users_seq = 0, services_seq = 0, messages_seq = 0, clock = 0,
                  schema_file = Some schema_sql, faults = [], sessions = Map.empty,
                  next_sid = 0, console = []\<rparr>"

definition users_only_world :: world where
  "users_only_world = fresh_world\<lparr>users := Some [admin_row], users_seq := 1, schema_file := None\<rparr>"

definition empty_world :: world where
  "empty_world = fresh_world\<lparr>users := Some [], services := Some [], messages := Some []\<rparr>"

text \<open>
  The rows that the seed inserts: the administrator with a given id, and the three
  services of the source with consecutive ids.
\<close>

definition seed_admin :: "bcrypt \<Rightarrow> nat \<Rightarrow> user_row" where
  "seed_admin B i = \<lparr>u_id = i, u_username = ''admin'',
                     u_password_hash = bc_hash B ''Admin*1234'' 10, u_name = ''Administrador''\<rparr>"

definition service_of :: "nat \<Rightarrow> string list \<Rightarrow> service_row" where
  "service_of i s = \<lparr>s_id = i, s_title = s ! 0, s_price = s ! 1, s_summary = s ! 2\<rparr>"

definition seed_rows :: "nat \<Rightarrow> service_row list" where
  "seed_rows i = [service_of i (default_services ! 0), service_of (Suc i) (default_services ! 1),
                  service_of (Suc (Suc i)) (default_services ! 2)]"

text \<open>
  Stores on which SQLite fails: at the first statement of the start, and at the ninth,
  which is the first of the seed when the start meets no table.
\<close>

definition io_error_world :: world where
  "io_error_world = fresh_world\<lparr>faults := [True]\<rparr>"

definition seed_error_world :: world where
  "seed_error_world =
     fresh_world\<lparr>faults := [False, False, False, False, False, False, False, False, True]\<rparr>"

text \<open>The text that the \<^verbatim>\<open>catch\<close> of the initialisation writes before the error.\<close>

definition init_error :: string where
  "init_error = ''Error al inicializar el esquema/seed:''"


text \<open>
  The protected routes, as the claim lists them; the identity that the token of a request
  resolves to in the session store; a request; and a store with the administrator logged
  in under token 7.
\<close>

definition protected_routes :: "(verb \<times> string) list" where
  "protected_routes =
     [(GET, ''/dashboard''), (GET, ''/about''), (GET, ''/contact''), (POST, ''/contact''),
      (GET, ''/hosting'')] @ map (\<lambda>page. (GET, ''/'' @ page)) servicePages"

definition resolve_identity :: "world \<Rightarrow> http_request \<Rightarrow> identity option" where
  "resolve_identity w r = (case req_cookie r of None \<Rightarrow> None | Some t \<Rightarrow> sessions w t)"

definition admin_identity :: identity where
  "admin_identity = \<lparr>i_id = 1, i_name = ''Administrador'', i_username = ''admin''\<rparr>"

definition logged_in_world :: world where
  "logged_in_world = empty_world\<lparr>users := Some [admin_row], users_seq := 1,
                                  sessions := [7 \<mapsto> admin_identity], next_sid := 8\<rparr>"

definition http :: "verb \<Rightarrow> string \<Rightarrow> nat option \<Rightarrow> (string \<rightharpoonup> jsval) \<Rightarrow> http_request" where
  "http m p c b = \<lparr>req_method = m, req_path = p, req_cookie = c, req_body = b\<rparr>"



definition contact_sent :: "request \<Rightarrow> reply" where
  "contact_sent req =
     (Render ''contact'' [(''user'', view_user req),
                          (''ok'', VStr ''Mensaje enviado correctamente.'')], None)"

definition contact_failed :: "request \<Rightarrow> reply" where
  "contact_failed req =
     (Render ''contact'' [(''user'', view_user req),
                          (''ok'', VStr ''No se pudo enviar. Intenta nuevamente.'')], None)"

definition contact_params :: "request \<Rightarrow> string \<Rightarrow> sqlval list" where
  "contact_params req t =
     [bindParam (getProp (req_body req) ''name''), bindParam (getProp (req_body req) ''email''),
      bindParam (getProp (req_body req) ''message''), SqlText t]"

definition contact_body :: "jsval \<Rightarrow> (string \<rightharpoonup> jsval)" where
  "contact_body t = [''name'' \<mapsto> JStr ''Ana'', ''email'' \<mapsto> JStr ''ana@example.com'',
                     ''message'' \<mapsto> JStr ''Hola'', ''topics'' \<mapsto> t]"

definition contact_request :: "(string \<rightharpoonup> jsval) \<Rightarrow> request" where
  "contact_request b = session_mw logged_in_world (http POST ''/contact'' (Some 7) b)"




text \<open>
  The title that the hosting page looks for; a store that holds the three services of the
  seed; a contact submission without a name; the line that the contact handler writes to
  the console when it fails; the rows of \<^verbatim>\<open>users\<close> that a username selects; the reply to a
  login that fails; and a login submission.
\<close>

definition hosting_title :: string where
  "hosting_title = ''Hosting Web Compartido''"

definition seeded_world :: world where
  "seeded_world = logged_in_world\<lparr>services := Some (seed_rows 1), services_seq := 3\<rparr>"

definition nameless_body :: "string \<rightharpoonup> jsval" where
  "nameless_body = (contact_body (JStr ''billing''))(''name'' := None)"

definition storage_failure :: "error \<Rightarrow> logline" where
  "storage_failure e = LogError ''Error guardando mensaje:'' e"

definition matching_users :: "jsval \<Rightarrow> user_row list \<Rightarrow> user_row list" where
  "matching_users v us = filter (\<lambda>r. text_affinity (bindParam v) = Some (u_username r)) us"

definition invalid_login :: reply where
  "invalid_login = (Render ''login'' [(''error'', VStr invalid_credentials)], None)"

definition login_request :: "string \<Rightarrow> string \<Rightarrow> http_request" where
  "login_request u p =
     http POST ''/login'' None [''username'' \<mapsto> JStr u, ''password'' \<mapsto> JStr p]"

text \<open>A login submission that has no password field.\<close>

definition login_without_password :: "string \<Rightarrow> http_request" where
  "login_without_password u = http POST ''/login'' None [''username'' \<mapsto> JStr u]"

section \<open>Schema creation\<close>

lemma sqlite_no_fault: "faults w = [] \<Longrightarrow> sqlite q ps w = eval_sql q ps w"
  by (simp add: sqlite_def await_def sqlite_step_def)

lemma faults_create_table [simp]: "faults (create_table t w) = faults w"
  by (cases t) (simp_all add: create_table_def)

lemma console_create_table [simp]: "console (create_table t w) = console w"
  by (cases t) (simp_all add: create_table_def)

lemma ensured_create_table [simp]: "ensured (create_table t w) = ensured w"
  by (cases t) (auto simp: create_table_def ensured_def rows_of_def table_exists_def split: option.splits)

lemma create_all: "create_table Messages (create_table Users (create_table Services w)) = ensured w"
  by (auto simp: create_table_def ensured_def rows_of_def table_exists_def split: option.splits)

lemma exec_creates:
  "faults w = [] \<Longrightarrow> only_creates qs \<Longrightarrow>
   \<exists>w'. exec qs w = (Inr (), w') \<and> faults w' = [] \<and> console w' = console w \<and> ensured w' = ensured w"
proof (induction qs arbitrary: w)
  case Nil
  then show ?case by (simp add: resolve_def)
next
  case (Cons q qs)
  from Cons.prems obtain t where q: "q = CreateTableIfNotExists t" and qs: "only_creates qs"
    by (auto simp: only_creates_def split: sql.splits)
  have "faults (create_table t w) = []" using Cons.prems by simp
  from Cons.IH [OF this qs] show ?case
    using Cons.prems(1) by (auto simp: q await_def sqlite_no_fault)
qed

lemma ensure_pair:
  "faults w = [] \<Longrightarrow>
   await (get (SelectNameFromSqliteMaster t) [])
     (\<lambda>need. await (if need = None then run (CreateTableIfNotExists t) [] else resolve ()) k) w
   = k () (create_table t w)"
  by (auto simp: await_def get_def run_def sqlite_no_fault resolve_def create_table_def)

lemma ensureSchema_ok:
  assumes "faults w = []" and "schema_file_ok w"
  shows "ensureSchema w = (Inr (), (ensured w)\<lparr>console := console w @ [Log ''Esquema verificado/aplicado correctamente.'']\<rparr>)"
proof -
  define k0 :: "unit io" where "k0 = (\<lambda>w. (case schema_file w of
                   None \<Rightarrow> resolve ()
                 | Some schema \<Rightarrow> if schema \<noteq> [] then exec schema else resolve ()) w)"
  have "\<exists>w'. k0 w = (Inr (), w') \<and> faults w' = [] \<and> console w' = console w \<and> ensured w' = ensured w"
  proof (cases "schema_file w")
    case None
    then show ?thesis using assms by (simp add: k0_def resolve_def)
  next
    case (Some qs)
    then have "only_creates qs" using assms by (simp add: schema_file_ok_def)
    from exec_creates [OF assms(1) this] show ?thesis
      using Some assms(1) by (auto simp: k0_def resolve_def)
  qed
  then obtain w' where w': "k0 w = (Inr (), w')" "faults w' = []" "console w' = console w"
    "ensured w' = ensured w" by blast
  have pr: "run PragmaJournalModeWAL [] w = (Inr (), w)" "run PragmaForeignKeysON [] w = (Inr (), w)"
    using assms(1) by (simp_all add: run_def await_def sqlite_no_fault resolve_def)
  have "ensureSchema w =
     await (get (SelectNameFromSqliteMaster Services) []) (\<lambda>needServices.
     await (if needServices = None then run (CreateTableIfNotExists Services) []
            else resolve ()) (\<lambda>_.
     await (get (SelectNameFromSqliteMaster Users) []) (\<lambda>needUsers.
     await (if needUsers = None then run (CreateTableIfNotExists Users) []
            else resolve ()) (\<lambda>_.
     await (get (SelectNameFromSqliteMaster Messages) []) (\<lambda>needMessages.
     await (if needMessages = None then run (CreateTableIfNotExists Messages) []
            else resolve ()) (\<lambda>_.
     console_log ''Esquema verificado/aplicado correctamente.'')))))) w'"
    unfolding ensureSchema_def k0_def [symmetric]
    by (simp add: await_def pr w')
  also have "\<dots> = console_log ''Esquema verificado/aplicado correctamente.''
      (create_table Messages (create_table Users (create_table Services w')))"
    by (simp add: ensure_pair w')
  also have "\<dots> = (Inr (), (ensured w)\<lparr>console := console w @ [Log ''Esquema verificado/aplicado correctamente.'']\<rparr>)"
    by (simp add: create_all w' console_log_def) (simp add: ensured_def w'(3)[symmetric])
  finally show ?thesis .
qed

text \<open>
  Claim C6. Schema creation run twice in a row gives no error either time and leaves the
  tables as the first run left them; the first run creates, empty, each of the three
  tables that was absent and leaves an existing table and its rows as they were. This
  is for a store on which no statement fails and a schema file that only creates tables.
\<close>

theorem ensureSchema_idempotent:
  assumes "faults w = []" and "schema_file_ok w"
  shows "fst (ensureSchema w) = Inr () \<and>
         fst (ensureSchema (snd (ensureSchema w))) = Inr () \<and>
         tables (snd (ensureSchema (snd (ensureSchema w)))) = tables (snd (ensureSchema w)) \<and>
         tables (snd (ensureSchema w)) =
           (Some (rows_of (users w)), Some (rows_of (services w)), Some (rows_of (messages w)))"
proof -
  let ?l = "Log ''Esquema verificado/aplicado correctamente.''"
  let ?w1 = "(ensured w)\<lparr>console := console w @ [?l]\<rparr>"
  have 1: "ensureSchema w = (Inr (), ?w1)"
    by (rule ensureSchema_ok [OF assms])
  have f1: "faults ?w1 = []" using assms(1) by (simp add: ensured_def)
  have s1: "schema_file_ok ?w1" using assms(2) by (simp add: ensured_def schema_file_ok_def)
  have 2: "ensureSchema ?w1 = (Inr (), (ensured ?w1)\<lparr>console := console ?w1 @ [?l]\<rparr>)"
    by (rule ensureSchema_ok [OF f1 s1])
  show ?thesis
    by (simp add: 1 2) (simp add: tables_def ensured_def rows_of_def)
qed

theorem ensureSchema_idempotent_witness:
  "faults users_only_world = [] \<and> schema_file_ok users_only_world \<and>
   fst (ensureSchema users_only_world) = Inr () \<and>
   fst (ensureSchema (snd (ensureSchema users_only_world))) = Inr () \<and>
   tables (snd (ensureSchema (snd (ensureSchema users_only_world))))
     = tables (snd (ensureSchema users_only_world)) \<and>
   tables (snd (ensureSchema users_only_world)) = (Some [admin_row], Some [], Some [])"
  using ensureSchema_idempotent [of users_only_world]
  by (simp add: users_only_world_def fresh_world_def schema_file_ok_def rows_of_def)

section \<open>Seeding\<close>

lemma fold_max_ge: "s \<le> fold max ids (s::nat)"
  by (induction ids arbitrary: s) (auto intro: order_trans [OF max.cobounded2])

lemma fold_max_mem: "x \<in> set ids \<Longrightarrow> x \<le> fold max ids (s::nat)"
proof (induction ids arbitrary: s)
  case Nil
  then show ?case by simp
next
  case (Cons a ids)
  show ?case
  proof (cases "x = a")
    case True
    have "a \<le> max a s" by simp
    also have "\<dots> \<le> fold max ids (max a s)" by (rule fold_max_ge)
    finally show ?thesis using True by simp
  next
    case False
    then show ?thesis using Cons by simp
  qed
qed

lemma fold_max_absorb: "\<forall>x\<in>set ids. x \<le> s \<Longrightarrow> fold max ids (s::nat) = s"
  by (induction ids) (auto simp: max_def)

lemma next_rowid_bounded: "\<forall>x\<in>set ids. x \<le> s \<Longrightarrow> next_rowid s ids = Suc s"
  by (simp add: next_rowid_def fold_max_absorb)

lemma next_rowid_gt: "x \<in> set ids \<Longrightarrow> x \<le> next_rowid s ids"
  using fold_max_mem [of x ids s] by (simp add: next_rowid_def)

lemma run_insert_service:
  assumes "faults w = []" "services w = Some rs"
  shows "run InsertService [SqlText a, SqlText b, SqlText c] w =
         (Inr (), w\<lparr>services := Some (rs @ [\<lparr>s_id = next_rowid (services_seq w) (map s_id rs),
                        s_title = a, s_price = b, s_summary = c\<rparr>]),
                     services_seq := next_rowid (services_seq w) (map s_id rs)\<rparr>)"
  using assms
  by (simp add: run_def sqlite_def sqlite_step_def await_def insert_service_def resolve_def Let_def)

lemma run_insert_user:
  assumes "faults w = []" "users w = Some []"
  shows "run InsertUser [SqlText a, SqlText b, SqlText c] w =
         (Inr (), w\<lparr>users := Some [\<lparr>u_id = Suc (users_seq w),
                        u_username = a, u_password_hash = b, u_name = c\<rparr>],
                     users_seq := Suc (users_seq w)\<rparr>)"
  using assms
  by (simp add: run_def sqlite_def sqlite_step_def await_def insert_user_def resolve_def Let_def
      next_rowid_def)

lemma seed_services:
  assumes "faults w = []" "services w = Some ss"
  shows "for_each default_services (\<lambda>s. run InsertService (map SqlText s)) w =
         (Inr (), w\<lparr>services := Some (ss @ seed_rows (next_rowid (services_seq w) (map s_id ss))),
                     services_seq := Suc (Suc (next_rowid (services_seq w) (map s_id ss)))\<rparr>)"
proof -
  let ?i = "next_rowid (services_seq w) (map s_id ss)"
  have b1: "\<forall>x\<in>set (map s_id ss @ [?i]). x \<le> ?i"
    by (auto intro: next_rowid_gt)
  have b2: "\<forall>x\<in>set (map s_id ss @ [?i, Suc ?i]). x \<le> Suc ?i"
    using b1 by (auto intro: le_SucI)
  have n1: "next_rowid ?i (map s_id ss @ [?i]) = Suc ?i"
    by (rule next_rowid_bounded [OF b1])
  have n2: "next_rowid (Suc ?i) (map s_id ss @ [?i, Suc ?i]) = Suc (Suc ?i)"
    by (rule next_rowid_bounded [OF b2])
  show ?thesis
    using assms n1 n2
    by (simp add: default_services_def await_def run_insert_service resolve_def seed_rows_def
        service_of_def)
qed

lemma seedIfEmpty_nonempty:
  assumes "faults w = []" "users w = Some us" "us \<noteq> []"
  shows "seedIfEmpty B w = (Inr (), w)"
  using assms
  by (simp add: seedIfEmpty_def get_def sqlite_def sqlite_step_def await_def resolve_def)

lemma seedIfEmpty_empty:
  assumes "faults w = []" "users w = Some []" "services w = Some ss"
  shows "seedIfEmpty B w =
         (Inr (), w\<lparr>users := Some [seed_admin B (Suc (users_seq w))],
                     users_seq := Suc (users_seq w),
                     services := Some (ss @ seed_rows (next_rowid (services_seq w) (map s_id ss))),
                     services_seq := Suc (Suc (next_rowid (services_seq w) (map s_id ss))),
                     console := console w @
                       [Log ''BD inicializada con usuario admin / Admin*1234 y servicios de ejemplo.'']\<rparr>)"
proof -
  let ?w1 = "w\<lparr>users := Some [seed_admin B (Suc (users_seq w))], users_seq := Suc (users_seq w)\<rparr>"
  have g: "get SelectCountUsers [] w = (Inr (Some (CountRow 0)), w)"
    using assms by (simp add: get_def sqlite_def sqlite_step_def await_def resolve_def)
  have u: "run InsertUser [SqlText ''admin'', SqlText (bc_hash B ''Admin*1234'' 10),
             SqlText ''Administrador''] w = (Inr (), ?w1)"
    using assms by (simp add: run_insert_user seed_admin_def)
  have s: "for_each default_services (\<lambda>s. run InsertService (map SqlText s)) ?w1 =
         (Inr (), ?w1\<lparr>services := Some (ss @ seed_rows (next_rowid (services_seq w) (map s_id ss))),
                     services_seq := Suc (Suc (next_rowid (services_seq w) (map s_id ss)))\<rparr>)"
    using seed_services [of ?w1 ss] assms by simp
  show ?thesis
    by (simp add: seedIfEmpty_def await_def g bcrypt_hash_def resolve_def u s console_log_def)
qed

text \<open>
  Claim C2. On a store where no statement fails: when the \<^verbatim>\<open>users\<close> table is empty (and
  the \<^verbatim>\<open>services\<close> table exists), \<^verbatim>\<open>seedIfEmpty\<close> inserts exactly one user, the
  administrator, and exactly three services, touches no message, and a second call
  changes nothing; when the \<^verbatim>\<open>users\<close> table has a row, it changes nothing, whatever the
  other tables hold.
\<close>

theorem seedIfEmpty_run_once:
  assumes "faults w = []" and "users w = Some us"
  shows "(us = [] \<and> services w = Some ss \<longrightarrow>
            fst (seedIfEmpty B w) = Inr () \<and>
            users (snd (seedIfEmpty B w)) = Some [seed_admin B (Suc (users_seq w))] \<and>
            services (snd (seedIfEmpty B w)) =
              Some (ss @ seed_rows (next_rowid (services_seq w) (map s_id ss))) \<and>
            length (seed_rows (next_rowid (services_seq w) (map s_id ss))) = 3 \<and>
            messages (snd (seedIfEmpty B w)) = messages w \<and>
            seedIfEmpty B (snd (seedIfEmpty B w)) = (Inr (), snd (seedIfEmpty B w)))
       \<and> (us \<noteq> [] \<longrightarrow> seedIfEmpty B w = (Inr (), w))"
proof (intro conjI impI)
  assume "us \<noteq> []"
  with assms show "seedIfEmpty B w = (Inr (), w)" by (rule seedIfEmpty_nonempty)
next
  assume a: "us = [] \<and> services w = Some ss"
  with assms have e: "users w = Some []" "services w = Some ss" by simp_all
  note r = seedIfEmpty_empty [OF assms(1) e, of B]
  show "fst (seedIfEmpty B w) = Inr ()" by (simp add: r)
  show "users (snd (seedIfEmpty B w)) = Some [seed_admin B (Suc (users_seq w))]" by (simp add: r)
  show "services (snd (seedIfEmpty B w)) =
              Some (ss @ seed_rows (next_rowid (services_seq w) (map s_id ss)))" by (simp add: r)
  show "length (seed_rows (next_rowid (services_seq w) (map s_id ss))) = 3"
    by (simp add: seed_rows_def)
  show "messages (snd (seedIfEmpty B w)) = messages w" by (simp add: r)
  have "faults (snd (seedIfEmpty B w)) = []" using assms(1) by (simp add: r)
  moreover have "users (snd (seedIfEmpty B w)) = Some [seed_admin B (Suc (users_seq w))]"
    by (simp add: r)
  ultimately show "seedIfEmpty B (snd (seedIfEmpty B w)) = (Inr (), snd (seedIfEmpty B w))"
    by (rule seedIfEmpty_nonempty) simp
qed

theorem seedIfEmpty_run_once_witness:
  "(faults empty_world = [] \<and> users empty_world = Some [] \<and> services empty_world = Some [] \<and>
    fst (seedIfEmpty toy_bcrypt empty_world) = Inr () \<and>
    users (snd (seedIfEmpty toy_bcrypt empty_world)) = Some [admin_row] \<and>
    map s_title (rows_of (services (snd (seedIfEmpty toy_bcrypt empty_world)))) =
      [''Hosting Web Compartido'', ''Servidores VPS'', ''Correo Corporativo''] \<and>
    seedIfEmpty toy_bcrypt (snd (seedIfEmpty toy_bcrypt empty_world)) =
      (Inr (), snd (seedIfEmpty toy_bcrypt empty_world))) \<and>
   (faults users_only_world = [] \<and> users users_only_world = Some [admin_row] \<and>
    services users_only_world = None \<and>
    seedIfEmpty toy_bcrypt users_only_world = (Inr (), users_only_world))"
  using seedIfEmpty_run_once [where w = empty_world and us = "[]" and ss = "[]" and B = toy_bcrypt]
    seedIfEmpty_run_once [where w = users_only_world and us = "[admin_row]" and B = toy_bcrypt]
  by (simp add: empty_world_def users_only_world_def fresh_world_def admin_row_def seed_admin_def
      toy_bcrypt_def seed_rows_def service_of_def default_services_def rows_of_def next_rowid_def)

section \<open>The start of the process\<close>

lemmas run_defs = ensureSchema_def seedIfEmpty_def await_def try_catch_def resolve_def reject_def
  run_def get_def all_def sqlite_def sqlite_step_def console_log_def console_error_def
  create_table_def table_exists_def schema_sql_def

lemma ensure_seed_error_world:
  "ensureSchema seed_error_world = (Inr (), seed_error_world\<lparr>users := Some [], services := Some [], messages := Some [], faults := [True], console := [Log ''Esquema verificado/aplicado correctamente.'']\<rparr>)"
  by (simp add: seed_error_world_def fresh_world_def run_defs)

text \<open>
  Claim C3, as the code has it. A failure of schema creation does not abort the start:
  the one \<^verbatim>\<open>catch\<close> of the initialisation takes it, writes it to the console, the seed is
  not run, and the process goes on listening, with the \<^verbatim>\<open>--init\<close> switch or without. A
  failure of the seed is treated in the same way.
\<close>

theorem init_catches_failures:
  "(fst (ensureSchema w) = Inl e \<longrightarrow>
      init B a w = (Inr Listening,
        (snd (ensureSchema w))\<lparr>console := console (snd (ensureSchema w)) @ [LogError init_error e]\<rparr>) \<and>
      init_001 B w = (Inr Listening,
        (snd (ensureSchema w))\<lparr>console := console (snd (ensureSchema w)) @ [LogError init_error e]\<rparr>))
   \<and> (fst (ensureSchema w) = Inr () \<and> fst (seedIfEmpty B (snd (ensureSchema w))) = Inl e \<longrightarrow>
      init B a w = (Inr Listening,
        (snd (seedIfEmpty B (snd (ensureSchema w))))
          \<lparr>console := console (snd (seedIfEmpty B (snd (ensureSchema w)))) @ [LogError init_error e]\<rparr>) \<and>
      init_001 B w = (Inr Listening,
        (snd (seedIfEmpty B (snd (ensureSchema w))))
          \<lparr>console := console (snd (seedIfEmpty B (snd (ensureSchema w)))) @ [LogError init_error e]\<rparr>))"
proof -
  obtain r1 w1 where 1: "ensureSchema w = (r1, w1)" by (cases "ensureSchema w")
  obtain r2 w2 where 2: "seedIfEmpty B w1 = (r2, w2)" by (cases "seedIfEmpty B w1")
  show ?thesis
    by (auto simp: init_def init_001_def try_catch_def await_def console_error_def resolve_def
        init_error_def 1 2)
qed

theorem init_catches_failures_witness:
  "fst (ensureSchema io_error_world) = Inl SqliteIOErr \<and>
   init toy_bcrypt True io_error_world =
     (Inr Listening, io_error_world\<lparr>faults := [], console := [LogError init_error SqliteIOErr]\<rparr>) \<and>
   fst (ensureSchema seed_error_world) = Inr () \<and>
   fst (seedIfEmpty toy_bcrypt (snd (ensureSchema seed_error_world))) = Inl SqliteIOErr \<and>
   fst (init toy_bcrypt False seed_error_world) = Inr Listening \<and>
   users (snd (init toy_bcrypt False seed_error_world)) = Some [] \<and>
   last (console (snd (init toy_bcrypt False seed_error_world))) = LogError init_error SqliteIOErr"
  using init_catches_failures [where w = io_error_world and e = SqliteIOErr and B = toy_bcrypt
      and a = True]
    init_catches_failures [where w = seed_error_world and e = SqliteIOErr and B = toy_bcrypt
      and a = False]
  by (simp add: ensure_seed_error_world)
     (simp add: io_error_world_def seed_error_world_def fresh_world_def run_defs)

text \<open>
  The claim as the specification words it (a failure of schema creation is fatal) fails
  on a store whose first statement meets an I/O error: schema creation fails and the
  process is listening all the same.
\<close>

theorem init_not_fatal_counterexample:
  "fst (ensureSchema io_error_world) = Inl SqliteIOErr \<and>
   fst (init toy_bcrypt False io_error_world) = Inr Listening \<and>
   fst (init toy_bcrypt True io_error_world) = Inr Listening \<and>
   fst (init_001 toy_bcrypt io_error_world) = Inr Listening"
  by (simp add: io_error_world_def fresh_world_def init_def init_001_def run_defs)

section \<open>The auth gate\<close>

lemma session_mw_user: "sess_user (req_session (session_mw w r)) = resolve_identity w r"
  by (simp add: session_mw_def resolve_identity_def split: option.splits)

lemma try_catch_total:
  assumes "\<And>e w'. \<exists>x w''. h e w' = (Inr x, w'')"
  shows "\<exists>x w'. try_catch m h w = (Inr x, w')"
proof (cases "m w")
  case (Pair r w1)
  show ?thesis
  proof (cases r)
    case (Inl e)
    with Pair assms [of e w1] show ?thesis by (auto simp: try_catch_def)
  next
    case (Inr x)
    with Pair show ?thesis by (simp add: try_catch_def)
  qed
qed

lemma login_post_total: "\<exists>x w'. login_post B req w = (Inr x, w')"
  unfolding login_post_def
  by (rule try_catch_total) (simp add: await_def console_error_def resolve_def)

lemma dashboard_get_total: "\<exists>x w'. dashboard_get req w = (Inr x, w')"
  unfolding dashboard_get_def
  by (rule try_catch_total) (simp add: await_def console_error_def resolve_def)

lemma contact_post_total: "\<exists>x w'. contact_post req w = (Inr x, w')"
  unfolding contact_post_def
  by (rule try_catch_total) (simp add: await_def console_error_def resolve_def)

lemma hosting_get_total: "\<exists>x w'. hosting_get req w = (Inr x, w')"
  unfolding hosting_get_def
  by (rule try_catch_total) (simp add: await_def console_error_def resolve_def)

lemma await_respond:
  "m w = (Inr x, w') \<Longrightarrow> await m (\<lambda>r. resolve (Respond r)) w = (Inr (Respond x), w')"
  by (simp add: await_def resolve_def)

lemma handlers_respond:
  assumes "h \<noteq> RequireAuth"
  shows "\<exists>rep w'. middleware B h req w = (Inr (Respond rep), w')"
proof (cases h)
  case RequireAuth
  with assms show ?thesis by simp
next
  case LoginPost
  obtain x w' where "login_post B req w = (Inr x, w')" using login_post_total by blast
  then show ?thesis by (simp add: LoginPost middleware_def await_respond)
next
  case DashboardGet
  obtain x w' where "dashboard_get req w = (Inr x, w')" using dashboard_get_total by blast
  then show ?thesis by (simp add: DashboardGet middleware_def await_respond)
next
  case ContactPost
  obtain x w' where "contact_post req w = (Inr x, w')" using contact_post_total by blast
  then show ?thesis by (simp add: ContactPost middleware_def await_respond)
next
  case HostingGet
  obtain x w' where "hosting_get req w = (Inr x, w')" using hosting_get_total by blast
  then show ?thesis by (simp add: HostingGet middleware_def await_respond)
qed (simp_all add: middleware_def await_def resolve_def root_get_def login_get_def logout_post_def
      session_destroy_def about_get_def contact_get_def service_page_get_def split: option.splits)

lemma protected_lookup:
  assumes "(m, p) \<in> set protected_routes"
  shows "\<exists>h. h \<noteq> RequireAuth \<and> map_of routes (m, p) = Some [RequireAuth, h]"
  using assms by (auto simp: protected_routes_def routes_def servicePages_def)

lemma requireAuth_mw: "middleware B RequireAuth req w = (Inr (requireAuth req), w)"
  by (simp add: middleware_def resolve_def)

text \<open>
  Claim C1. A request to a protected route (\<^verbatim>\<open>/dashboard\<close>, \<^verbatim>\<open>/about\<close>, \<^verbatim>\<open>/contact\<close> with GET
  and POST, \<^verbatim>\<open>/hosting\<close> and the nine service pages) whose token resolves to no identity
  is answered by the gate alone, with a redirect to \<^verbatim>\<open>/login\<close>, the state unchanged and
  the handler of the route not invoked. When the token resolves to an identity, the gate
  hands over, the handler of the route runs on the request that carries this identity,
  and its reply is the reply of the application.
\<close>

theorem protected_routes_gated:
  assumes "(req_method r, req_path r) \<in> set protected_routes"
  shows "(resolve_identity w r = None \<longrightarrow>
            app B r w = ((Inr (Redirect ''/login'', None), w), [RequireAuth]))
       \<and> (\<forall>u. resolve_identity w r = Some u \<longrightarrow>
            (\<exists>h rep w'. h \<noteq> RequireAuth \<and>
               map_of routes (req_method r, req_path r) = Some [RequireAuth, h] \<and>
               sess_user (req_session (session_mw w r)) = Some u \<and>
               middleware B h (session_mw w r) w = (Inr (Respond rep), w') \<and>
               app B r w = ((Inr rep, w'), [RequireAuth, h])))"
proof -
  from protected_lookup [OF assms] obtain h where h: "h \<noteq> RequireAuth"
    and route: "map_of routes (req_method r, req_path r) = Some [RequireAuth, h]" by blast
  let ?req = "session_mw w r"
  have anon: "app B r w = ((Inr (Redirect ''/login'', None), w), [RequireAuth])"
    if "resolve_identity w r = None"
    using that
    by (simp add: app_def route requireAuth_mw requireAuth_def session_mw_user)
  have auth: "\<exists>h rep w'. h \<noteq> RequireAuth \<and>
               map_of routes (req_method r, req_path r) = Some [RequireAuth, h] \<and>
               sess_user (req_session ?req) = Some u \<and>
               middleware B h ?req w = (Inr (Respond rep), w') \<and>
               app B r w = ((Inr rep, w'), [RequireAuth, h])"
    if u: "resolve_identity w r = Some u" for u
  proof -
    from handlers_respond [OF h] obtain rep w' where
      m: "middleware B h ?req w = (Inr (Respond rep), w')" by blast
    have "app B r w = ((Inr rep, w'), [RequireAuth, h])"
      by (simp add: app_def route requireAuth_mw requireAuth_def session_mw_user u m)
    with h route m u show ?thesis by (auto simp: session_mw_user)
  qed
  from anon auth show ?thesis by blast
qed

theorem protected_routes_gated_witness:
  "(GET, ''/dashboard'') \<in> set protected_routes \<and>
   resolve_identity logged_in_world (http GET ''/dashboard'' None Map.empty) = None \<and>
   app toy_bcrypt (http GET ''/dashboard'' None Map.empty) logged_in_world =
     ((Inr (Redirect ''/login'', None), logged_in_world), [RequireAuth]) \<and>
   (GET, ''/about'') \<in> set protected_routes \<and>
   resolve_identity logged_in_world (http GET ''/about'' (Some 7) Map.empty) = Some admin_identity \<and>
   app toy_bcrypt (http GET ''/about'' (Some 7) Map.empty) logged_in_world =
     ((Inr (Render ''about'' [(''user'', VIdentity admin_identity)], None), logged_in_world),
      [RequireAuth, AboutGet])"
  using protected_routes_gated [where r = "http GET ''/dashboard'' None Map.empty"
      and w = logged_in_world and B = toy_bcrypt]
    protected_routes_gated [where r = "http GET ''/about'' (Some 7) Map.empty"
      and w = logged_in_world and B = toy_bcrypt]
  by (simp add: http_def protected_routes_def resolve_identity_def logged_in_world_def
      empty_world_def fresh_world_def)
     (simp add: app_def routes_def middleware_def requireAuth_def session_mw_def about_get_def
      await_def resolve_def view_user_def)

text \<open>
  Claim C9, as the code has it. \<^verbatim>\<open>POST /logout\<close> is registered among the public routes,
  without the gate: for every request, with a valid session or without, the logout
  handler is the one middleware invoked; it removes the session of the request from the
  store, when there is one, and redirects to \<^verbatim>\<open>/login\<close>. Afterwards the token of the request
  resolves to no identity.
\<close>

theorem logout_not_gated:
  assumes "req_method r = POST" and "req_path r = ''/logout''"
  shows "app B r w =
           ((Inr (Redirect ''/login'', None),
             w\<lparr>sessions := (case req_cookie r of None \<Rightarrow> sessions w
                             | Some t \<Rightarrow> (sessions w)(t := None))\<rparr>), [LogoutPost]) \<and>
         resolve_identity (snd (fst (app B r w))) r = None"
proof -
  have route: "map_of routes (req_method r, req_path r) = Some [LogoutPost]"
    by (simp add: assms routes_def)
  have idle: "sessions w t = None \<Longrightarrow> (sessions w)(t := None) = sessions w" for t
    by (rule ext) simp
  have "app B r w =
           ((Inr (Redirect ''/login'', None),
             w\<lparr>sessions := (case req_cookie r of None \<Rightarrow> sessions w
                             | Some t \<Rightarrow> (sessions w)(t := None))\<rparr>), [LogoutPost])"
    by (simp add: app_def route middleware_def logout_post_def session_destroy_def session_mw_def
        await_def resolve_def idle split: option.splits)
  then show ?thesis by (simp add: resolve_identity_def split: option.splits)
qed

theorem logout_not_gated_witness:
  "req_method (http POST ''/logout'' (Some 7) Map.empty) = POST \<and>
   req_path (http POST ''/logout'' (Some 7) Map.empty) = ''/logout'' \<and>
   resolve_identity logged_in_world (http POST ''/logout'' (Some 7) Map.empty) = Some admin_identity \<and>
   app toy_bcrypt (http POST ''/logout'' (Some 7) Map.empty) logged_in_world =
     ((Inr (Redirect ''/login'', None), logged_in_world\<lparr>sessions := Map.empty\<rparr>), [LogoutPost]) \<and>
   app toy_bcrypt (http GET ''/dashboard'' (Some 7) Map.empty)
       (logged_in_world\<lparr>sessions := Map.empty\<rparr>) =
     ((Inr (Redirect ''/login'', None), logged_in_world\<lparr>sessions := Map.empty\<rparr>), [RequireAuth])"
  using logout_not_gated [where r = "http POST ''/logout'' (Some 7) Map.empty"
      and w = logged_in_world and B = toy_bcrypt]
  by (simp add: http_def resolve_identity_def logged_in_world_def empty_world_def fresh_world_def)
     (simp add: app_def routes_def middleware_def requireAuth_def session_mw_def resolve_def)

text \<open>
  The claim as the specification words it (without a valid session the gate answers and
  the logout handler is not invoked) fails on a request without a token: the logout
  handler is invoked, and the gate is not.
\<close>

theorem logout_gate_counterexample:
  "resolve_identity logged_in_world (http POST ''/logout'' None Map.empty) = None \<and>
   app toy_bcrypt (http POST ''/logout'' None Map.empty) logged_in_world =
     ((Inr (Redirect ''/login'', None), logged_in_world), [LogoutPost])"
  by (simp add: http_def resolve_identity_def app_def routes_def middleware_def logout_post_def
      session_destroy_def session_mw_def await_def resolve_def)

section \<open>The contact form\<close>







text \<open>An insert into \<^verbatim>\<open>messages\<close> either fails and changes nothing or adds one row.\<close>

lemma insert_message_cases:
  "(\<exists>e. insert_message a b c d w = (Inl e, w)) \<or>
   (\<exists>w'. insert_message a b c d w = (Inr [], w') \<and>
      (\<exists>row. messages w' = Some (rows_of (messages w) @ [row]) \<and>
             text_affinity d = Some (m_topics row)) \<and>
      console w' = console w)"
  by (simp add: insert_message_def rows_of_def Let_def split: option.splits)

lemma run_insert_message_cases:
  "(\<exists>e w'. run InsertMessage [a, b, c, d] w = (Inl e, w') \<and> messages w' = messages w
       \<and> console w' = console w) \<or>
   (\<exists>w'. run InsertMessage [a, b, c, d] w = (Inr (), w') \<and>
       (\<exists>row. messages w' = Some (rows_of (messages w) @ [row]) \<and>
              text_affinity d = Some (m_topics row)) \<and>
       console w' = console w)"
proof (cases "faults w")
  case Nil
  then have s: "sqlite_step w = (Inr (), w)" by (simp add: sqlite_step_def)
  from insert_message_cases [of a b c d w] show ?thesis
    by (auto simp: run_def sqlite_def await_def s resolve_def)
next
  case (Cons f fs)
  let ?w = "w\<lparr>faults := fs\<rparr>"
  show ?thesis
  proof (cases f)
    case True
    with Cons have "sqlite_step w = (Inl SqliteIOErr, ?w)" by (simp add: sqlite_step_def)
    then show ?thesis by (simp add: run_def sqlite_def await_def)
  next
    case False
    with Cons have s: "sqlite_step w = (Inr (), ?w)" by (simp add: sqlite_step_def)
    from insert_message_cases [of a b c d ?w] show ?thesis
      by (auto simp: run_def sqlite_def await_def s resolve_def)
  qed
qed

text \<open>The handler, by the outcome of the conversion of the topics and of the insert.\<close>

lemma contact_post_unfold:
  "contact_post req w =
      (case topicsStr (req_body req) of
         Inl e \<Rightarrow> (Inr (contact_failed req), w\<lparr>console := console w @ [storage_failure e]\<rparr>)
       | Inr t \<Rightarrow>
          (case run InsertMessage (contact_params req t) w of
             (Inl e, w') \<Rightarrow>
               (Inr (contact_failed req), w'\<lparr>console := console w' @ [storage_failure e]\<rparr>)
           | (Inr u, w') \<Rightarrow> (Inr (contact_sent req), w')))"
  by (simp add: contact_post_def try_catch_def await_def resolve_def reject_def
      console_error_def contact_failed_def contact_sent_def contact_params_def
      storage_failure_def Let_def split: sum.splits prod.splits)










text \<open>
  Claim C7. When the insert of a contact submission fails in the store, no message row is
  added, the contact form is rendered again with the failure notice, and the error goes
  to the console; when it succeeds, exactly one row is added and the success notice is
  rendered. In every case the handler replies with one of the two notices: no error
  leaves it.
\<close>

theorem contact_post_outcomes:
  "(topicsStr (req_body req) = Inr t \<and>
      fst (run InsertMessage (contact_params req t) w) = Inl e \<longrightarrow>
        fst (contact_post req w) = Inr (contact_failed req) \<and>
        messages (snd (contact_post req w)) = messages w \<and>
        console (snd (contact_post req w)) = console w @ [storage_failure e])
   \<and> (topicsStr (req_body req) = Inr t \<and>
      fst (run InsertMessage (contact_params req t) w) = Inr () \<longrightarrow>
        fst (contact_post req w) = Inr (contact_sent req) \<and>
        (\<exists>row. messages (snd (contact_post req w)) = Some (rows_of (messages w) @ [row])))
   \<and> (fst (contact_post req w) = Inr (contact_sent req) \<or>
      fst (contact_post req w) = Inr (contact_failed req))"
proof -
  let ?run = "\<lambda>t. run InsertMessage (contact_params req t) w"
  have cases: "(\<exists>e w'. ?run t = (Inl e, w') \<and> messages w' = messages w \<and> console w' = console w) \<or>
       (\<exists>w'. ?run t = (Inr (), w') \<and>
          (\<exists>row. messages w' = Some (rows_of (messages w) @ [row]) \<and>
                 text_affinity (SqlText t) = Some (m_topics row))
          \<and> console w' = console w)" for t
    unfolding contact_params_def by (rule run_insert_message_cases)
  note post = contact_post_unfold [of req w]
  show ?thesis
  proof (cases "topicsStr (req_body req)")
    case (Inl e')
    then show ?thesis by (simp add: post)
  next
    case (Inr t')
    from cases [of t'] show ?thesis
      by (auto simp: post Inr)
  qed
qed

theorem contact_post_outcomes_witness:
  "topicsStr (req_body (contact_request nameless_body)) = Inr ''billing'' \<and>
   fst (run InsertMessage (contact_params (contact_request nameless_body) ''billing'')
          logged_in_world) = Inl (ConstraintNotNull ''messages.name'') \<and>
   fst (contact_post (contact_request nameless_body) logged_in_world) =
     Inr (contact_failed (contact_request nameless_body)) \<and>
   messages (snd (contact_post (contact_request nameless_body) logged_in_world)) = Some [] \<and>
   fst (run InsertMessage (contact_params (contact_request (contact_body (JStr ''billing'')))
          ''billing'') (logged_in_world\<lparr>faults := [True]\<rparr>)) = Inl SqliteIOErr \<and>
   fst (contact_post (contact_request (contact_body (JStr ''billing'')))
          (logged_in_world\<lparr>faults := [True]\<rparr>)) =
     Inr (contact_failed (contact_request (contact_body (JStr ''billing'')))) \<and>
   messages (snd (contact_post (contact_request (contact_body (JStr ''billing'')))
          (logged_in_world\<lparr>faults := [True]\<rparr>))) = Some [] \<and>
   fst (run InsertMessage (contact_params (contact_request (contact_body (JStr ''billing'')))
          ''billing'') logged_in_world) = Inr () \<and>
   fst (contact_post (contact_request (contact_body (JStr ''billing''))) logged_in_world) =
     Inr (contact_sent (contact_request (contact_body (JStr ''billing'')))) \<and>
   length (rows_of (messages (snd (contact_post
     (contact_request (contact_body (JStr ''billing''))) logged_in_world)))) = 1"
proof -
  have t1: "topicsStr (req_body (contact_request nameless_body)) = Inr ''billing''"
    by (simp add: contact_request_def nameless_body_def contact_body_def session_mw_def http_def
        topicsStr_def getProp_def)
  have t2: "topicsStr (req_body (contact_request (contact_body (JStr ''billing'')))) = Inr ''billing''"
    by (simp add: contact_request_def contact_body_def session_mw_def http_def
        topicsStr_def getProp_def)
  have r1: "fst (run InsertMessage (contact_params (contact_request nameless_body) ''billing'')
          logged_in_world) = Inl (ConstraintNotNull ''messages.name'')"
    by (simp add: contact_request_def nameless_body_def contact_body_def session_mw_def http_def
        contact_params_def getProp_def run_def sqlite_def sqlite_step_def await_def
        insert_message_def logged_in_world_def empty_world_def fresh_world_def)
  have r2: "fst (run InsertMessage (contact_params (contact_request (contact_body (JStr ''billing'')))
          ''billing'') (logged_in_world\<lparr>faults := [True]\<rparr>)) = Inl SqliteIOErr"
    by (simp add: run_def sqlite_def sqlite_step_def await_def)
  have r3: "fst (run InsertMessage (contact_params (contact_request (contact_body (JStr ''billing'')))
          ''billing'') logged_in_world) = Inr ()"
    by (simp add: contact_request_def contact_body_def session_mw_def http_def
        contact_params_def getProp_def run_def sqlite_def sqlite_step_def await_def resolve_def
        insert_message_def logged_in_world_def empty_world_def fresh_world_def Let_def)
  have m: "messages logged_in_world = Some []"
    by (simp add: logged_in_world_def empty_world_def fresh_world_def)
  from contact_post_outcomes [where req = "contact_request nameless_body" and t = "''billing''"
      and w = logged_in_world and e = "ConstraintNotNull ''messages.name''"]
    contact_post_outcomes [where req = "contact_request (contact_body (JStr ''billing''))"
      and t = "''billing''" and w = "logged_in_world\<lparr>faults := [True]\<rparr>" and e = SqliteIOErr]
    contact_post_outcomes [where req = "contact_request (contact_body (JStr ''billing''))"
      and t = "''billing''" and w = logged_in_world]
  show ?thesis
    using t1 t2 r1 r2 r3 m by (auto simp: rows_of_def)
qed

section \<open>The hosting page\<close>

lemma first_row: "(case filter P xs of [] \<Rightarrow> None | r # _ \<Rightarrow> Some r) = find P xs"
  by (induction xs) simp_all

lemma first_row_map:
  "(case map f (filter P xs) of [] \<Rightarrow> None | r # _ \<Rightarrow> Some r) = map_option f (find P xs)"
  by (induction xs) simp_all

lemma find_absent: "t \<notin> s_title ` set ss \<Longrightarrow> find (\<lambda>r. t = s_title r) ss = None"
  by (induction ss) auto

lemma get_service_by_title:
  assumes "faults w = []" and "services w = Some ss"
  shows "get SelectServiceByTitle [SqlText t] w =
           (Inr (map_option ServiceRow (find (\<lambda>r. t = s_title r) ss)), w)"
  using assms
  by (simp add: get_def sqlite_def sqlite_step_def await_def resolve_def first_row_map)

text \<open>
  Claim C8. The hosting handler looks up the first service row whose title is exactly
  \<^verbatim>\<open>Hosting Web Compartido\<close> and gives it to the template; when there is no such row the
  template receives \<^verbatim>\<open>undefined\<close>; and the handler always replies, it never throws.
\<close>

theorem hosting_lookup:
  "(faults w = [] \<and> services w = Some ss \<longrightarrow>
      hosting_get req w =
        (Inr (Render ''hosting''
               [(''user'', view_user req),
                (''hosting'', case find (\<lambda>r. hosting_title = s_title r) ss of
                                None \<Rightarrow> VUndefined | Some r \<Rightarrow> VRow (ServiceRow r))],
              None), w))
   \<and> (faults w = [] \<and> services w = Some ss \<and> hosting_title \<notin> s_title ` set ss \<longrightarrow>
      hosting_get req w =
        (Inr (Render ''hosting'' [(''user'', view_user req), (''hosting'', VUndefined)], None), w))
   \<and> (\<exists>rep w'. hosting_get req w = (Inr rep, w'))"
proof -
  have found: "hosting_get req w =
        (Inr (Render ''hosting''
               [(''user'', view_user req),
                (''hosting'', case find (\<lambda>r. hosting_title = s_title r) ss of
                                None \<Rightarrow> VUndefined | Some r \<Rightarrow> VRow (ServiceRow r))],
              None), w)"
    if "faults w = []" and "services w = Some ss"
    using get_service_by_title [OF that, of hosting_title]
    by (simp add: hosting_get_def try_catch_def await_def resolve_def hosting_title_def
        split: option.splits)
  have absent: "hosting_get req w =
        (Inr (Render ''hosting'' [(''user'', view_user req), (''hosting'', VUndefined)], None), w)"
    if "faults w = []" and "services w = Some ss" and "hosting_title \<notin> s_title ` set ss"
    using found [OF that(1,2)] find_absent [OF that(3)] by simp
  from found absent hosting_get_total [of req w] show ?thesis by blast
qed

theorem hosting_lookup_witness:
  "faults seeded_world = [] \<and> services seeded_world = Some (seed_rows 1) \<and>
   hosting_get (session_mw seeded_world (http GET ''/hosting'' (Some 7) Map.empty)) seeded_world =
     (Inr (Render ''hosting''
            [(''user'', VIdentity admin_identity),
             (''hosting'', VRow (ServiceRow (service_of 1 (default_services ! 0))))], None),
      seeded_world) \<and>
   s_title (service_of 1 (default_services ! 0)) = hosting_title \<and>
   faults logged_in_world = [] \<and> services logged_in_world = Some [] \<and>
   hosting_title \<notin> s_title ` set [] \<and>
   hosting_get (session_mw logged_in_world (http GET ''/hosting'' (Some 7) Map.empty))
       logged_in_world =
     (Inr (Render ''hosting'' [(''user'', VIdentity admin_identity), (''hosting'', VUndefined)],
           None), logged_in_world)"
  using hosting_lookup [where w = seeded_world and ss = "seed_rows 1"
      and req = "session_mw seeded_world (http GET ''/hosting'' (Some 7) Map.empty)"]
    hosting_lookup [where w = logged_in_world and ss = "[]"
      and req = "session_mw logged_in_world (http GET ''/hosting'' (Some 7) Map.empty)"]
  by (simp add: seeded_world_def logged_in_world_def empty_world_def fresh_world_def
      session_mw_def http_def view_user_def seed_rows_def service_of_def default_services_def
      hosting_title_def)

section \<open>Login\<close>

lemma get_user_by_username:
  assumes "faults w = []" and "users w = Some us"
  shows "get SelectUserByUsername [bindParam v] w =
           (Inr (case matching_users v us of [] \<Rightarrow> None | u # _ \<Rightarrow> Some (UserRow u)), w)"
  using assms
  by (simp add: get_def sqlite_def sqlite_step_def await_def resolve_def matching_users_def
      split: list.splits)

lemma login_post_no_user:
  assumes "faults w = []" and "users w = Some us"
    and "matching_users (getProp (req_body req) ''username'') us = []"
  shows "login_post B req w = (Inr invalid_login, w)"
  using assms(3) get_user_by_username [OF assms(1,2), of "getProp (req_body req) ''username''"]
  by (simp add: login_post_def try_catch_def await_def resolve_def invalid_login_def)

lemma login_post_wrong_password:
  assumes "faults w = []" and "users w = Some us"
    and "matching_users (getProp (req_body req) ''username'') us = u # rest"
    and "fst (bcrypt_compare B (getProp (req_body req) ''password'') (u_password_hash u) w)
           = Inr False"
  shows "login_post B req w = (Inr invalid_login, w)"
proof -
  from assms(4) have c: "bcrypt_compare B (getProp (req_body req) ''password'')
      (u_password_hash u) w = (Inr False, w)"
    by (cases "getProp (req_body req) ''password''")
      (simp_all add: bcrypt_compare_def resolve_def reject_def)
  show ?thesis
    using assms(3) get_user_by_username [OF assms(1,2), of "getProp (req_body req) ''username''"] c
    by (simp add: login_post_def try_catch_def await_def resolve_def invalid_login_def)
qed

text \<open>
  A password that is not a string is another matter: \<^verbatim>\<open>bcrypt.compare\<close> rejects, and the
  \<^verbatim>\<open>catch\<close> of the handler answers with the message of an internal error.
\<close>

lemma login_post_password_not_string:
  assumes "faults w = []" and "users w = Some us"
    and "matching_users (getProp (req_body req) ''username'') us = u # rest"
    and "\<forall>p. getProp (req_body req) ''password'' \<noteq> JStr p"
  shows "login_post B req w =
           (Inr (Render ''login'' [(''error'', VStr ''Error interno. Intenta de nuevo.'')], None),
            w\<lparr>console := console w @ [LogError ''Error en login:'' IllegalArguments]\<rparr>)"
proof -
  from assms(4) have c: "bcrypt_compare B (getProp (req_body req) ''password'')
      (u_password_hash u) w = (Inl IllegalArguments, w)"
    by (cases "getProp (req_body req) ''password''")
      (simp_all add: bcrypt_compare_def resolve_def reject_def)
  show ?thesis
    using assms(3) get_user_by_username [OF assms(1,2), of "getProp (req_body req) ''username''"] c
    by (simp add: login_post_def try_catch_def await_def resolve_def console_error_def)
qed

lemma app_login_post:
  assumes "req_method r = POST" and "req_path r = ''/login''"
    and "login_post B (session_mw w r) w = (Inr rep, w')"
  shows "app B r w = ((Inr rep, w'), [LoginPost])"
  using assms by (simp add: app_def routes_def middleware_def await_def resolve_def)

text \<open>
  When the password is one that \<^verbatim>\<open>bcrypt.compare\<close> compares and finds not to match, the
  two failures are answered alike: on one and the same store, a submission whose username
  selects no user and one whose username selects a user get the same reply from the
  application, the login form with the one generic message and no cookie, and the state
  is left as it was.
\<close>

lemma login_failures_alike:
  assumes "faults w = []" and "users w = Some us"
    and "req_method r1 = POST" and "req_path r1 = ''/login''"
    and "req_method r2 = POST" and "req_path r2 = ''/login''"
    and "matching_users (getProp (req_body r1) ''username'') us = []"
    and "matching_users (getProp (req_body r2) ''username'') us = u # rest"
    and "fst (bcrypt_compare B (getProp (req_body r2) ''password'') (u_password_hash u) w)
           = Inr False"
  shows "app B r1 w = ((Inr invalid_login, w), [LoginPost]) \<and>
         app B r2 w = ((Inr invalid_login, w), [LoginPost])"
proof
  have "login_post B (session_mw w r1) w = (Inr invalid_login, w)"
    using assms(1,2,7) by (intro login_post_no_user) (simp_all add: session_mw_def)
  with assms(3,4) show "app B r1 w = ((Inr invalid_login, w), [LoginPost])"
    by (rule app_login_post)
  have "login_post B (session_mw w r2) w = (Inr invalid_login, w)"
    using assms(1,2,8,9) by (intro login_post_wrong_password) (simp_all add: session_mw_def)
  with assms(5,6) show "app B r2 w = ((Inr invalid_login, w), [LoginPost])"
    by (rule app_login_post)
qed

lemma login_failures_alike_example:
  "app toy_bcrypt (login_request ''nouser'' ''x'') logged_in_world =
     ((Inr (Render ''login'' [(''error'', VStr invalid_credentials)], None), logged_in_world),
      [LoginPost]) \<and>
   app toy_bcrypt (login_request ''admin'' ''wrong'') logged_in_world =
     app toy_bcrypt (login_request ''nouser'' ''x'') logged_in_world"
  using login_failures_alike [where w = logged_in_world and us = "[admin_row]"
      and ?r1.0 = "login_request ''nouser'' ''x''" and ?r2.0 = "login_request ''admin'' ''wrong''"
      and u = admin_row and rest = "[]" and B = toy_bcrypt]
  by (simp add: logged_in_world_def empty_world_def fresh_world_def login_request_def http_def
      getProp_def matching_users_def admin_row_def bcrypt_compare_def toy_bcrypt_def resolve_def
      invalid_login_def)

text \<open>
  Claim C4. The claim asks that, for every login submission, an unknown username and a
  known username with a password that does not verify get the identical generic reply.
  The handler gives the same message in its two failure branches, but it misses the
  submission whose password is not a string: \<^verbatim>\<open>bcrypt.compare\<close> is reached only when the
  user exists, rejects, and the \<^verbatim>\<open>catch\<close> answers with the message of an internal error.
  On the store that holds the administrator, the submission without a password field
  is answered with the generic message for the username \<^verbatim>\<open>nouser\<close> and with the internal
  error for the username \<^verbatim>\<open>admin\<close>: the two replies differ, and tell the client that
  \<^verbatim>\<open>admin\<close> exists.
\<close>

theorem login_without_password_reveals_user:
  "app toy_bcrypt (login_without_password ''nouser'') logged_in_world =
     ((Inr (Render ''login'' [(''error'', VStr invalid_credentials)], None), logged_in_world),
      [LoginPost]) \<and>
   app toy_bcrypt (login_without_password ''admin'') logged_in_world =
     ((Inr (Render ''login'' [(''error'', VStr ''Error interno. Intenta de nuevo.'')], None),
       logged_in_world\<lparr>console := [LogError ''Error en login:'' IllegalArguments]\<rparr>),
      [LoginPost]) \<and>
   fst (fst (app toy_bcrypt (login_without_password ''admin'') logged_in_world)) \<noteq>
   fst (fst (app toy_bcrypt (login_without_password ''nouser'') logged_in_world))"
proof -
  have f: "faults logged_in_world = []" and us: "users logged_in_world = Some [admin_row]"
    and c: "console logged_in_world = []"
    by (simp_all add: logged_in_world_def empty_world_def fresh_world_def)
  have m: "req_method (login_without_password x) = POST"
    and p: "req_path (login_without_password x) = ''/login''" for x
    by (simp_all add: login_without_password_def http_def)
  have b: "req_body (session_mw logged_in_world (login_without_password x)) =
      [''username'' \<mapsto> JStr x]" for x
    by (simp add: session_mw_def login_without_password_def http_def)
  have "login_post toy_bcrypt (session_mw logged_in_world (login_without_password ''nouser''))
      logged_in_world = (Inr invalid_login, logged_in_world)"
    by (rule login_post_no_user [OF f us])
      (simp add: b getProp_def matching_users_def admin_row_def)
  from app_login_post [OF m p this]
  have 1: "app toy_bcrypt (login_without_password ''nouser'') logged_in_world =
      ((Inr (Render ''login'' [(''error'', VStr invalid_credentials)], None), logged_in_world),
       [LoginPost])"
    by (simp add: invalid_login_def)
  have "login_post toy_bcrypt (session_mw logged_in_world (login_without_password ''admin''))
      logged_in_world =
      (Inr (Render ''login'' [(''error'', VStr ''Error interno. Intenta de nuevo.'')], None),
       logged_in_world\<lparr>console := console logged_in_world @
         [LogError ''Error en login:'' IllegalArguments]\<rparr>)"
    by (rule login_post_password_not_string [OF f us, where u = admin_row and rest = "[]"])
      (simp_all add: b getProp_def matching_users_def admin_row_def)
  from app_login_post [OF m p this]
  have 2: "app toy_bcrypt (login_without_password ''admin'') logged_in_world =
      ((Inr (Render ''login'' [(''error'', VStr ''Error interno. Intenta de nuevo.'')], None),
        logged_in_world\<lparr>console := [LogError ''Error en login:'' IllegalArguments]\<rparr>),
       [LoginPost])"
    by (simp add: c)
  show ?thesis
    by (simp add: 1 2 invalid_credentials_def)
qed

end
